theory Spec2Isabelle
  imports Complex_Main "HOL-Library.Char_ord" "HOL-Library.List_Lexorder"
    "HOL-Library.Product_Lexorder" "HOL-Library.Sublist"
begin

section \<open>Conventions of the embedding\<close>

text \<open>
  The recommendation core of the backend (\<^verbatim>\<open>recommendations/scoring_service.py\<close>,
  \<^verbatim>\<open>recommendations/trend_analyzer.py\<close>, \<^verbatim>\<open>recommendations/models.py\<close>,
  \<^verbatim>\<open>user/models.py\<close>) is embedded as HOL functions.

  \<^item> Python \<^verbatim>\<open>float\<close> values are modelled in two ways. The scoring pipeline is stated over
    \<^typ>\<open>real\<close>, the exact arithmetic the code describes; this serves the statements that
    rounding cannot affect (ranges, order of the result, which candidates appear). The two
    numeric kernels, the similarity and the distance decay, are given a second time with
    every operation rounded to an IEEE 754 double; statements about exact values, strict
    order and raised errors are made on these.
  \<^item> A UUID primary key is the natural number it encodes.
  \<^item> A \<^verbatim>\<open>datetime\<close> is the pair of the two things the code reads from it: its position on
    the time line in seconds and its calendar month.
  \<^item> A database table is the list of its rows in the order an unordered query scans them.
  \<^item> A JSON dictionary is the list of its items with distinct keys.
\<close>

type_synonym uuid = nat

record datetime =
  seconds :: real
  month :: nat

section \<open>ScoringService: similarity and distance decay\<close>

text \<open>\<^verbatim>\<open>ScoringService.vector_dimension = 100\<close>\<close>

definition vector_dimension :: nat where
  "vector_dimension = 100"

text \<open>
  \<^verbatim>\<open>calculate_similarity(user_vec, poi_vec)\<close> in exact arithmetic: empty input gives 0.0; both
  vectors are cut to the shorter length; a zero magnitude gives 0.0; otherwise the cosine,
  clamped to [0, 1].
\<close>

definition dot_product :: "real list \<Rightarrow> real list \<Rightarrow> real" where
  "dot_product us ps = sum_list (map (\<lambda>(u, p). u * p) (zip us ps))"

definition magnitude :: "real list \<Rightarrow> real" where
  "magnitude us = sqrt (sum_list (map (\<lambda>u. u ^ 2) us))"

definition calculate_similarity :: "real list \<Rightarrow> real list \<Rightarrow> real" where
  "calculate_similarity user_vec poi_vec =
     (if user_vec = [] \<or> poi_vec = [] then 0
      else
        let min_len = min (length user_vec) (length poi_vec);
            user_vec' = take min_len user_vec;
            poi_vec' = take min_len poi_vec;
            user_magnitude = magnitude user_vec';
            poi_magnitude = magnitude poi_vec'
        in if user_magnitude = 0 \<or> poi_magnitude = 0 then 0
           else max 0 (min 1 (dot_product user_vec' poi_vec' / (user_magnitude * poi_magnitude))))"

text \<open>
  \<^verbatim>\<open>_calculate_distance_decay(distance_meters)\<close> in exact arithmetic: \<^verbatim>\<open>not distance_meters\<close> holds for
  \<^verbatim>\<open>None\<close> and for 0; a negative distance also returns 1.0; otherwise
  \<^verbatim>\<open>max(0.0, exp(-distance_meters / 1000.0))\<close>.
\<close>

definition calculate_distance_decay :: "real option \<Rightarrow> real" where
  "calculate_distance_decay distance_meters =
     (case distance_meters of
        None \<Rightarrow> 1
      | Some d \<Rightarrow> if d = 0 \<or> d < 0 then 1 else max 0 (exp (- d / 1000)))"

section \<open>Double-precision arithmetic\<close>

text \<open>
  The two numeric kernels above are also given with every arithmetic step rounded as Python
  rounds it, since exact equalities and strict inequalities between floats depend on the
  rounding. A Python \<^verbatim>\<open>float\<close> is an IEEE 754 binary64 number: a finite double, an infinity or
  NaN. The sign of zero is not represented: the code only adds, multiplies and compares, and
  \<^verbatim>\<open>-0.0 == 0.0\<close>.

  Rounding is to nearest, ties to even: a real \<open>x\<close> is scaled by the unit in the last place of
  its binade, \<open>2 powi ulp_exponent x\<close> (53 significant bits, not below the subnormal unit
  \<open>2 powi (- 1074)\<close>), and the quotient is rounded to an integer.
\<close>

definition round_half_even :: "real \<Rightarrow> int" where
  "round_half_even q =
     (let f = \<lfloor>q\<rfloor>; r = q - of_int f
      in if r < 1 / 2 then f else if 1 / 2 < r then f + 1 else if even f then f else f + 1)"

definition ulp_exponent :: "real \<Rightarrow> int" where
  "ulp_exponent x = max (\<lfloor>log 2 \<bar>x\<bar>\<rfloor> - 52) (- 1074)"

definition round_to_double :: "real \<Rightarrow> real" where
  "round_to_double x =
     (if x = 0 then 0
      else of_int (round_half_even (x / 2 powi ulp_exponent x)) * 2 powi ulp_exponent x)"

text \<open>
  A result whose rounded magnitude reaches \<open>2 ^ 1024\<close> is beyond the largest double: float
  multiplication, addition and division then give an infinity.
\<close>

datatype py_float = Finite real | PInf | NInf | NaN

datatype float_error = OverflowError | ZeroDivisionError | ValueError

definition overflow_threshold :: real where
  "overflow_threshold = 2 ^ 1024"

definition to_float :: "real \<Rightarrow> py_float" where
  "to_float x =
     (let r = round_to_double x
      in if overflow_threshold \<le> r then PInf
         else if r \<le> - overflow_threshold then NInf
         else Finite r)"






definition float_pow2 :: "real \<Rightarrow> float_error + py_float" where
  "float_pow2 u =
     (let r = round_to_double (u * u)
      in if overflow_threshold \<le> r then Inl OverflowError else Inr (Finite r))"










section \<open>Data model\<close>

text \<open>\<^verbatim>\<open>PointDTO\<close>; a GIS point of a POI is read through \<^verbatim>\<open>.y\<close> (latitude) and \<^verbatim>\<open>.x\<close> (longitude).\<close>

record point =
  latitude :: real
  longitude :: real

datatype category = HISTORICAL | NATURE | FOOD | ENTERTAINMENT

text \<open>
  \<^verbatim>\<open>locations.models.POI\<close>, with the fields the recommendation core reads. The model declares
  no default ordering and no \<^verbatim>\<open>is_open\<close> field.
\<close>

record POI =
  poi_id :: uuid
  poi_name :: string
  location :: point
  poi_category :: category
  average_rating :: real
  tags :: "string list"

text \<open>\<^verbatim>\<open>user.models.UserProfile\<close>: the primary key and the JSON preference dictionary.\<close>

record UserProfile =
  user_id :: uuid
  preferences_vector :: "(string \<times> real) list"

datatype InteractionType = VIEW | LIKE | SHARE | VISIT | CLICK | CHECK_IN

record Interaction =
  interaction_user :: uuid
  interaction_poi :: uuid
  interaction_type :: InteractionType
  timestamp :: datetime

record BlacklistedPOI =
  blacklisted_poi :: uuid
  reason :: string
  created_at :: datetime
  expires_at :: datetime

record TrendingList =
  geohash :: string
  trending_pois :: "uuid list"
  updated_at :: datetime

datatype season = SPRING | SUMMER | FALL | WINTER

record SeasonalMetadata =
  seasonal_poi :: uuid
  peak_season :: season
  visit_count_spring :: nat
  visit_count_summer :: nat
  visit_count_fall :: nat
  visit_count_winter :: nat
  last_analyzed_at :: datetime

text \<open>What the services print.\<close>

datatype output_line =
    User_not_found uuid
  | Analyzed_seasonal_trends nat

text \<open>
  The database. Tables whose rows are unique in a key (the primary key of a user profile, the
  one-to-one POI of a blacklist entry and of a seasonal record, the unique geohash of a
  trending list) are maps from that key; the POI and interaction tables are lists in scan
  order. \<^verbatim>\<open>stdout\<close> collects the printed lines.
\<close>

record db =
  pois :: "POI list"
  users :: "uuid \<rightharpoonup> UserProfile"
  interactions :: "Interaction list"
  blacklist :: "uuid \<rightharpoonup> BlacklistedPOI"
  trending_lists :: "string \<rightharpoonup> TrendingList"
  seasonal_metadata :: "uuid \<rightharpoonup> SeasonalMetadata"
  stdout :: "output_line list"

text \<open>\<^verbatim>\<open>ContextDTO\<close> and \<^verbatim>\<open>ScoredPOI\<close> of \<^verbatim>\<open>recommendations/dtos.py\<close>.\<close>

record ContextDTO =
  user_location :: point
  time_of_day :: "string option"
  is_open_only :: bool
  radius_meters :: real
  max_results :: int

record ScoredPOI =
  sp_poi_id :: uuid
  sp_poi_name :: string
  sp_latitude :: real
  sp_longitude :: real
  sp_category :: category
  sp_average_rating :: real
  final_score :: real
  similarity_score :: real
  distance_score :: real
  rating_score :: real
  distance_meters :: "real option"
  sp_tags :: "string list"

datatype error = DoesNotExist

section \<open>ScoringService: scoring and ranking\<close>

text \<open>
  The service object holds the three weights; \<^verbatim>\<open>__init__\<close> stores its arguments (and prints
  a warning, without failing, when they do not sum to 1 within 0.01).
\<close>

record ScoringService =
  WEIGHT_INTEREST :: real
  WEIGHT_DISTANCE :: real
  WEIGHT_RATING :: real

definition ScoringService_init :: "real \<Rightarrow> real \<Rightarrow> real \<Rightarrow> ScoringService" where
  "ScoringService_init weight_interest weight_distance weight_rating =
     \<lparr>WEIGHT_INTEREST = weight_interest, WEIGHT_DISTANCE = weight_distance,
      WEIGHT_RATING = weight_rating\<rparr>"

text \<open>The constructor's default arguments: interest 0.5, distance 0.2, rating 0.3.\<close>

definition default_service :: ScoringService where
  "default_service = ScoringService_init (5 / 10) (2 / 10) (3 / 10)"

text \<open>
  \<^verbatim>\<open>_get_user_vector\<close>: an empty dictionary gives the zero vector; otherwise the items are
  sorted (as pairs, so by tag), each weight is divided by the largest weight (by 1 when that is
  0) and written at the position of its item, positions from 100 on being dropped.
\<close>

definition get_user_vector :: "UserProfile \<Rightarrow> real list" where
  "get_user_vector user =
     (if preferences_vector user = [] then replicate vector_dimension 0
      else
        let max_weight = Max (set (map snd (preferences_vector user)));
            max_weight = (if max_weight = 0 then 1 else max_weight)
        in fold (\<lambda>(i, (tag, weight)) vector.
                   if i < vector_dimension then vector[i := weight / max_weight] else vector)
             (enumerate 0 (sort (preferences_vector user)))
             (replicate vector_dimension 0))"

text \<open>
  \<^verbatim>\<open>_get_poi_vector\<close>: for a non-empty tag list, position \<open>i\<close> of each of the first 100 tags
  gets \<^verbatim>\<open>1.0 / len(poi.tags)\<close>.
\<close>

definition get_poi_vector :: "POI \<Rightarrow> real list" where
  "get_poi_vector poi =
     (let vector = replicate vector_dimension 0
      in if tags poi \<noteq> []
         then fold (\<lambda>(i, tag) vector. vector[i := 1 / real (length (tags poi))])
                (enumerate 0 (take vector_dimension (tags poi))) vector
         else vector)"

text \<open>
  \<^verbatim>\<open>compute_score\<close> returns (final, similarity, distance, rating). A rating of 0 and a
  distance of \<^verbatim>\<open>None\<close> or 0 are falsy and take the \<^verbatim>\<open>else\<close> value.
\<close>

definition compute_score ::
  "ScoringService \<Rightarrow> POI \<Rightarrow> UserProfile \<Rightarrow> real option \<Rightarrow> real \<times> real \<times> real \<times> real" where
  "compute_score self poi user distance =
     (let user_vector = get_user_vector user;
          poi_vector = get_poi_vector poi;
          similarity_score = calculate_similarity user_vector poi_vector;
          rating_score = (if average_rating poi \<noteq> 0 then average_rating poi / 5 else 0);
          distance_score = (if distance \<noteq> None \<and> distance \<noteq> Some 0
                            then calculate_distance_decay distance else 1);
          final_score = similarity_score * WEIGHT_INTEREST self
                        + rating_score * WEIGHT_RATING self
                        + distance_score * WEIGHT_DISTANCE self
      in (final_score, similarity_score, distance_score, rating_score))"

text \<open>The body of the scoring loop: one \<^verbatim>\<open>ScoredPOI\<close> for a candidate and its distance.\<close>

definition score_candidate ::
  "ScoringService \<Rightarrow> UserProfile \<Rightarrow> POI \<Rightarrow> real \<Rightarrow> ScoredPOI" where
  "score_candidate self user poi d =
     (case compute_score self poi user (Some d) of
        (final, sim_score, dist_score, rating) \<Rightarrow>
          \<lparr>sp_poi_id = poi_id poi, sp_poi_name = poi_name poi,
           sp_latitude = latitude (location poi), sp_longitude = longitude (location poi),
           sp_category = poi_category poi, sp_average_rating = average_rating poi,
           final_score = final, similarity_score = sim_score, distance_score = dist_score,
           rating_score = rating, distance_meters = Some d, sp_tags = tags poi\<rparr>)"

text \<open>Python's \<^verbatim>\<open>xs[:n]\<close>: a negative \<open>n\<close> drops the last \<open>-n\<close> elements.\<close>

definition slice_to :: "int \<Rightarrow> 'a list \<Rightarrow> 'a list" where
  "slice_to n xs = (if 0 \<le> n then take (nat n) xs else take (length xs - nat (- n)) xs)"

text \<open>
  \<^verbatim>\<open>generate_recommendations\<close>. The geodesic distance of PostGIS is the parameter
  \<open>distance_func\<close>. The query keeps the POIs within the radius and drops those for which a
  blacklist row exists (\<^verbatim>\<open>exclude(blacklist_entry__isnull=False)\<close>); no clock is read. The
  \<^verbatim>\<open>is_open\<close> filter is guarded by a membership test of the string \<^verbatim>\<open>'is_open'\<close> among the
  field objects of the POI model, which never holds, so it is never applied.

  The scoring loop wraps each candidate in \<^verbatim>\<open>try/except\<close> and skips a candidate whose
  scoring raises. On this data model the only step that can raise is the squaring inside
  \<^verbatim>\<open>calculate_similarity\<close>, which overflows for a normalised weight beyond about 1.3e154; in
  exact arithmetic nothing overflows, so \<open>scored_pois\<close> describes the runs in which no
  candidate is skipped, and scores every candidate.

  \<^verbatim>\<open>sort(key=final_score, reverse=True)\<close> is a stable sort into descending order, which is
  the stable insertion sort on the negated key.
\<close>

definition candidate_pois :: "(point \<Rightarrow> point \<Rightarrow> real) \<Rightarrow> db \<Rightarrow> ContextDTO \<Rightarrow> POI list" where
  "candidate_pois distance_func d context =
     filter (\<lambda>poi. distance_func (location poi) (user_location context) \<le> radius_meters context
                   \<and> blacklist d (poi_id poi) = None)
       (pois d)"

definition scored_pois ::
  "ScoringService \<Rightarrow> (point \<Rightarrow> point \<Rightarrow> real) \<Rightarrow> db \<Rightarrow> UserProfile \<Rightarrow> ContextDTO
     \<Rightarrow> ScoredPOI list" where
  "scored_pois self distance_func d user context =
     map (\<lambda>poi. score_candidate self user poi
                  (distance_func (location poi) (user_location context)))
       (candidate_pois distance_func d context)"

definition generate_recommendations ::
  "ScoringService \<Rightarrow> (point \<Rightarrow> point \<Rightarrow> real) \<Rightarrow> db \<Rightarrow> UserProfile \<Rightarrow> ContextDTO
     \<Rightarrow> ScoredPOI list" where
  "generate_recommendations self distance_func d user context =
     slice_to (max_results context)
       (sort_key (\<lambda>x. - final_score x) (scored_pois self distance_func d user context))"

section \<open>ScoringService: the preference update\<close>

text \<open>
  \<^verbatim>\<open>UserProfile.update_vector(tag, weight)\<close> is \<^verbatim>\<open>return # TODO\<close>: it changes nothing.
\<close>

definition update_vector :: "UserProfile \<Rightarrow> string \<Rightarrow> real \<Rightarrow> UserProfile" where
  "update_vector self tag weight = self"

text \<open>\<^verbatim>\<open>UserProfile.objects.get(id=user_id)\<close> raises \<^verbatim>\<open>DoesNotExist\<close> for an unknown id.\<close>

definition UserProfile_get :: "db \<Rightarrow> uuid \<Rightarrow> error + UserProfile" where
  "UserProfile_get d uid = (case users d uid of None \<Rightarrow> Inl DoesNotExist | Some u \<Rightarrow> Inr u)"

text \<open>Following the foreign key \<^verbatim>\<open>recent_interaction.poi\<close>.\<close>

definition POI_get :: "db \<Rightarrow> uuid \<Rightarrow> error + POI" where
  "POI_get d pid = (case find (\<lambda>poi. poi_id poi = pid) (pois d) of
                      None \<Rightarrow> Inl DoesNotExist | Some poi \<Rightarrow> Inr poi)"

text \<open>The literal \<^verbatim>\<open>weight_map\<close> of \<^verbatim>\<open>update_user_vector\<close>.\<close>

fun weight_map :: "InteractionType \<Rightarrow> real" where
  "weight_map VIEW = 1 / 10"
| "weight_map LIKE = 3 / 10"
| "weight_map SHARE = 4 / 10"
| "weight_map VISIT = 5 / 10"
| "weight_map CLICK = 2 / 10"
| "weight_map CHECK_IN = 6 / 10"

text \<open>
  \<^verbatim>\<open>Interaction.objects.filter(user=..., interaction_type=...).order_by('-timestamp')[:1]\<close>
\<close>

definition recent_interactions :: "db \<Rightarrow> uuid \<Rightarrow> InteractionType \<Rightarrow> Interaction list" where
  "recent_interactions d uid interaction =
     take 1 (sort_key (\<lambda>i. - seconds (timestamp i))
               (filter (\<lambda>i. interaction_user i = uid \<and> interaction_type i = interaction)
                  (interactions d)))"

text \<open>
  \<^verbatim>\<open>update_user_vector(user_id, interaction)\<close>: the \<^verbatim>\<open>DoesNotExist\<close> of the user lookup is
  caught, a line is printed and the method returns; without a matching interaction or without
  tags it returns; otherwise it calls \<^verbatim>\<open>update_vector\<close> for every tag of the POI of the most
  recent matching interaction. The profile object is threaded through the loop and is the
  state of the user's row afterwards.
\<close>

definition update_user_vector :: "db \<Rightarrow> uuid \<Rightarrow> InteractionType \<Rightarrow> error + db" where
  "update_user_vector d uid interaction =
     (case UserProfile_get d uid of
        Inl DoesNotExist \<Rightarrow> Inr (d\<lparr>stdout := stdout d @ [User_not_found uid]\<rparr>)
      | Inr user_profile \<Rightarrow>
          (case recent_interactions d uid interaction of
             [] \<Rightarrow> Inr d
           | recent_interaction # _ \<Rightarrow>
               (case POI_get d (interaction_poi recent_interaction) of
                  Inl e \<Rightarrow> Inl e
                | Inr poi \<Rightarrow>
                    if tags poi = [] then Inr d
                    else
                      let weight_increment = weight_map interaction;
                          user_profile' = fold (\<lambda>tag u. update_vector u tag weight_increment)
                                            (tags poi) user_profile
                      in Inr (d\<lparr>users := (users d)(uid \<mapsto> user_profile')\<rparr>))))"

section \<open>TrendAnalyzer\<close>

record TrendAnalyzer =
  UNDERRATED_THRESHOLD :: int
  HIGH_RATING_FLOOR :: real
  CACHE_TTL :: int

definition TrendAnalyzer_init :: "int \<Rightarrow> real \<Rightarrow> int \<Rightarrow> TrendAnalyzer" where
  "TrendAnalyzer_init underrated_threshold high_rating_floor cache_ttl =
     \<lparr>UNDERRATED_THRESHOLD = underrated_threshold, HIGH_RATING_FLOOR = high_rating_floor,
      CACHE_TTL = cache_ttl\<rparr>"

definition default_analyzer :: TrendAnalyzer where
  "default_analyzer = TrendAnalyzer_init 50 (45 / 10) 3600"

text \<open>
  The interactions of a POI in the last 24 hours: the join and the count of the trending query
  (\<^verbatim>\<open>interactions__timestamp__gte=last_24h\<close>, \<^verbatim>\<open>Count('interactions')\<close>).
\<close>

definition interaction_count :: "db \<Rightarrow> datetime \<Rightarrow> POI \<Rightarrow> nat" where
  "interaction_count d now poi =
     length (filter (\<lambda>i. interaction_poi i = poi_id poi
                          \<and> seconds now - 24 * 3600 \<le> seconds (timestamp i))
               (interactions d))"

text \<open>
  Steps 2 to 4 of \<^verbatim>\<open>get_trending_now\<close>: the POIs inside the box of the geohash (the parameter
  \<open>in_area\<close> stands for the decoded bounding box and the PostGIS containment test) with an
  interaction in the last 24 hours, by descending count, the first 20; their ids are written to
  the \<^verbatim>\<open>TrendingList\<close> row of the geohash, whose \<^verbatim>\<open>updated_at\<close> is set on save.
\<close>

definition trending_query ::
  "(string \<Rightarrow> point \<Rightarrow> bool) \<Rightarrow> db \<Rightarrow> datetime \<Rightarrow> string \<Rightarrow> POI list" where
  "trending_query in_area d now gh =
     take 20 (sort_key (\<lambda>poi. - int (interaction_count d now poi))
                (filter (\<lambda>poi. in_area gh (location poi) \<and> 0 < interaction_count d now poi)
                   (pois d)))"

definition TrendingList_update_or_create :: "db \<Rightarrow> datetime \<Rightarrow> string \<Rightarrow> uuid list \<Rightarrow> db" where
  "TrendingList_update_or_create d now gh poi_ids =
     d\<lparr>trending_lists := (trending_lists d)
          (gh \<mapsto> \<lparr>geohash = gh, trending_pois = poi_ids, updated_at = now\<rparr>)\<rparr>"

text \<open>
  \<^verbatim>\<open>get_trending_now(geohash)\<close>: a cached row younger than \<^verbatim>\<open>CACHE_TTL\<close> seconds is answered
  with \<^verbatim>\<open>POI.objects.filter(id__in=cached_trending.pois)\<close>, an unordered query, which yields
  the matching POIs in scan order; otherwise the list is recomputed and cached. The result is
  the returned list and the database after the call.
\<close>

definition get_trending_now ::
  "TrendAnalyzer \<Rightarrow> (string \<Rightarrow> point \<Rightarrow> bool) \<Rightarrow> datetime \<Rightarrow> db \<Rightarrow> string \<Rightarrow> POI list \<times> db" where
  "get_trending_now self in_area now d gh =
     (let recompute =
            (let trending = trending_query in_area d now gh;
                 poi_ids = map poi_id trending
             in (trending, TrendingList_update_or_create d now gh poi_ids))
      in case trending_lists d gh of
           Some cached_trending \<Rightarrow>
             if seconds now - seconds (updated_at cached_trending) < real_of_int (CACHE_TTL self)
             then (filter (\<lambda>poi. poi_id poi \<in> set (trending_pois cached_trending)) (pois d), d)
             else recompute
         | None \<Rightarrow> recompute)"

text \<open>The season of a month, as the \<^verbatim>\<open>if/elif/else\<close> chain of the batch job.\<close>

definition season_of_month :: "nat \<Rightarrow> season" where
  "season_of_month m =
     (if m \<in> set [3, 4, 5] then SPRING
      else if m \<in> set [6, 7, 8] then SUMMER
      else if m \<in> set [9, 10, 11] then FALL
      else WINTER)"

text \<open>
  The dictionary \<^verbatim>\<open>season_counts\<close> is the list of its items in insertion order;
  \<^verbatim>\<open>season_counts[season] += 1\<close> rewrites the item of the key.
\<close>

definition initial_season_counts :: "(season \<times> nat) list" where
  "initial_season_counts = [(SPRING, 0), (SUMMER, 0), (FALL, 0), (WINTER, 0)]"

definition increment_season :: "season \<Rightarrow> (season \<times> nat) list \<Rightarrow> (season \<times> nat) list" where
  "increment_season s counts = map (\<lambda>(k, v). if k = s then (k, v + 1) else (k, v)) counts"

definition season_count :: "(season \<times> nat) list \<Rightarrow> season \<Rightarrow> nat" where
  "season_count counts s = (case map_of counts s of Some v \<Rightarrow> v | None \<Rightarrow> 0)"

text \<open>
  \<^verbatim>\<open>max(season_counts, key=season_counts.get)\<close>: the keys are visited in insertion order and
  the running best is replaced only by a strictly larger value, so the first maximal key wins.
\<close>

fun max_by_key :: "('a \<Rightarrow> nat) \<Rightarrow> 'a \<Rightarrow> 'a list \<Rightarrow> 'a" where
  "max_by_key f best [] = best"
| "max_by_key f best (k # ks) = max_by_key f (if f best < f k then k else best) ks"

definition peak_of :: "(season \<times> nat) list \<Rightarrow> season" where
  "peak_of counts =
     (case map fst counts of k # ks \<Rightarrow> max_by_key (season_count counts) k ks | [] \<Rightarrow> SPRING)"

text \<open>The body of the loop of \<^verbatim>\<open>analyze_seasonal_trends\<close> for one POI.\<close>

definition analyze_poi :: "datetime \<Rightarrow> POI \<Rightarrow> db \<Rightarrow> db" where
  "analyze_poi now poi d =
     (let poi_interactions = filter (\<lambda>i. interaction_poi i = poi_id poi) (interactions d)
      in if poi_interactions = [] then d
         else
           let season_counts = fold (\<lambda>i counts. increment_season
                                        (season_of_month (month (timestamp i))) counts)
                                 poi_interactions initial_season_counts;
               peak = peak_of season_counts
           in d\<lparr>seasonal_metadata := (seasonal_metadata d)
                  (poi_id poi \<mapsto>
                     \<lparr>seasonal_poi = poi_id poi, peak_season = peak,
                      visit_count_spring = season_count season_counts SPRING,
                      visit_count_summer = season_count season_counts SUMMER,
                      visit_count_fall = season_count season_counts FALL,
                      visit_count_winter = season_count season_counts WINTER,
                      last_analyzed_at = now\<rparr>)\<rparr>)"

definition analyze_seasonal_trends :: "datetime \<Rightarrow> db \<Rightarrow> db" where
  "analyze_seasonal_trends now d =
     (let d' = fold (analyze_poi now) (pois d) d
      in d'\<lparr>stdout := stdout d' @ [Analyzed_seasonal_trends (length (pois d))]\<rparr>)"

text \<open>
  \<^verbatim>\<open>cleanup_expired_blacklist\<close> deletes the rows selected by \<^verbatim>\<open>expires_at__lte=now\<close>: a
  row is expired from the moment that sweep would delete it, and live before.
\<close>

definition entry_expired :: "datetime \<Rightarrow> BlacklistedPOI \<Rightarrow> bool" where
  "entry_expired now e \<longleftrightarrow> seconds (expires_at e) \<le> seconds now"

section \<open>Auxiliary notions of the statements\<close>

text \<open>A score lies in the closed interval from 0 to 1.\<close>

definition unit_interval :: "real \<Rightarrow> bool" where
  "unit_interval x \<longleftrightarrow> 0 \<le> x \<and> x \<le> 1"

text \<open>
  The user vector in closed form: the weights in the order of the sorted items, each divided
  by the largest weight (by 1 when that is 0), cut or zero-padded to 100 entries.
\<close>

definition positional_user_vector :: "(string \<times> real) list \<Rightarrow> real list" where
  "positional_user_vector prefs =
     (let m = Max (set (map snd prefs));
          m = (if m = 0 then 1 else m)
      in take vector_dimension (map (\<lambda>(tag, weight). weight / m) (sort prefs))
         @ replicate (vector_dimension - length prefs) 0)"

text \<open>
  The POI vector in closed form for \<open>n\<close> tags: \<open>1 / n\<close> in the first \<open>min n 100\<close> entries,
  0 in the others.
\<close>

definition positional_poi_vector :: "nat \<Rightarrow> real list" where
  "positional_poi_vector n =
     replicate (min n vector_dimension) (1 / real n) @ replicate (vector_dimension - n) 0"

text \<open>
  The fixed order of the seasons: Spring, Summer, Fall, Winter.
\<close>

fun season_order :: "season \<Rightarrow> nat" where
  "season_order SPRING = 0"
| "season_order SUMMER = 1"
| "season_order FALL = 2"
| "season_order WINTER = 3"

definition all_seasons :: "season list" where
  "all_seasons = [SPRING, SUMMER, FALL, WINTER]"

text \<open>
  A season is the first maximum of four counters when no counter is larger and every
  season before it in the fixed order has a strictly smaller counter.
\<close>

definition first_maximum :: "(season \<Rightarrow> nat) \<Rightarrow> season \<Rightarrow> bool" where
  "first_maximum cnt pk \<longleftrightarrow>
     (\<forall>s \<in> set all_seasons. cnt s \<le> cnt pk)
     \<and> (\<forall>s \<in> set all_seasons. season_order s < season_order pk \<longrightarrow> cnt s < cnt pk)"

text \<open>
  The counter of a season in a seasonal record.
\<close>

fun visit_count :: "SeasonalMetadata \<Rightarrow> season \<Rightarrow> nat" where
  "visit_count m SPRING = visit_count_spring m"
| "visit_count m SUMMER = visit_count_summer m"
| "visit_count m FALL = visit_count_fall m"
| "visit_count m WINTER = visit_count_winter m"

text \<open>
  The number of interactions of a POI whose timestamp month is one of the given months.
\<close>

definition visits_in :: "db \<Rightarrow> uuid \<Rightarrow> nat list \<Rightarrow> nat" where
  "visits_in d pid months =
     length (filter (\<lambda>i. interaction_poi i = pid \<and> month (timestamp i) \<in> set months)
               (interactions d))"

text \<open>
  The number of interactions of a list that fall into a season.
\<close>

definition count_season :: "Interaction list \<Rightarrow> season \<Rightarrow> nat" where
  "count_season is s = length (filter (\<lambda>i. season_of_month (month (timestamp i)) = s) is)"

text \<open>
  \<^verbatim>\<open>Interaction.objects.filter(poi=poi)\<close>
\<close>

definition poi_interactions :: "db \<Rightarrow> uuid \<Rightarrow> Interaction list" where
  "poi_interactions d pid = filter (\<lambda>i. interaction_poi i = pid) (interactions d)"

text \<open>
  The record the batch job stores for a POI, from the season counts of its interactions.
\<close>

definition seasonal_record :: "datetime \<Rightarrow> db \<Rightarrow> uuid \<Rightarrow> SeasonalMetadata" where
  "seasonal_record now d pid =
     (let counts = [(SPRING, count_season (poi_interactions d pid) SPRING),
                    (SUMMER, count_season (poi_interactions d pid) SUMMER),
                    (FALL, count_season (poi_interactions d pid) FALL),
                    (WINTER, count_season (poi_interactions d pid) WINTER)]
      in \<lparr>seasonal_poi = pid, peak_season = peak_of counts,
          visit_count_spring = season_count counts SPRING,
          visit_count_summer = season_count counts SUMMER,
          visit_count_fall = season_count counts FALL,
          visit_count_winter = season_count counts WINTER,
          last_analyzed_at = now\<rparr>)"

section \<open>The similarity the specification describes\<close>

text \<open>
  For comparison with the code: the cosine of two sparse tag-weight mappings over the union
  of the tags present in either mapping, a tag missing from one side counting as weight 0. A
  POI's tag list is read as the mapping giving each of its tags the weight the code uses,
  \<open>1 / len(tags)\<close>. These three definitions follow the words of the specification, not the
  code.
\<close>

definition spec_sparse_weight :: "(string \<times> real) list \<Rightarrow> string \<Rightarrow> real" where
  "spec_sparse_weight m t = (case map_of m t of Some w \<Rightarrow> w | None \<Rightarrow> 0)"

definition spec_sparse_cosine :: "(string \<times> real) list \<Rightarrow> (string \<times> real) list \<Rightarrow> real" where
  "spec_sparse_cosine a b =
     (let dims = remdups (map fst a @ map fst b);
          av = map (spec_sparse_weight a) dims;
          bv = map (spec_sparse_weight b) dims
      in dot_product av bv / (magnitude av * magnitude bv))"

definition spec_tag_mapping :: "string list \<Rightarrow> (string \<times> real) list" where
  "spec_tag_mapping ts = map (\<lambda>t. (t, 1 / real (length ts))) (remdups ts)"

section \<open>Example data\<close>

text \<open>
  Concrete inputs on which the statements below are evaluated: a few POIs at one place, two
  users, and small databases. \<open>planar_distance\<close> stands in for the geodesic distance and
  \<open>everywhere\<close> for a geohash box that contains every POI.
\<close>

definition origin :: point where
  "origin = \<lparr>latitude = 0, longitude = 0\<rparr>"

definition planar_distance :: "point \<Rightarrow> point \<Rightarrow> real" where
  "planar_distance a b = \<bar>latitude a - latitude b\<bar> + \<bar>longitude a - longitude b\<bar>"

definition everywhere :: "string \<Rightarrow> point \<Rightarrow> bool" where
  "everywhere gh p = True"

definition at_time :: "real \<Rightarrow> nat \<Rightarrow> datetime" where
  "at_time s m = \<lparr>seconds = s, month = m\<rparr>"

definition museum :: POI where
  "museum = \<lparr>poi_id = 1, poi_name = ''Museum'', location = origin, poi_category = HISTORICAL,
             average_rating = 4, tags = [''history'']\<rparr>"

definition cafe :: POI where
  "cafe = \<lparr>poi_id = 2, poi_name = ''Cafe'', location = origin, poi_category = FOOD,
           average_rating = 4, tags = [''food'']\<rparr>"

definition park :: POI where
  "park = \<lparr>poi_id = 3, poi_name = ''Park'', location = origin, poi_category = NATURE,
           average_rating = 4, tags = [''nature'']\<rparr>"

definition bar :: POI where
  "bar = \<lparr>poi_id = 4, poi_name = ''Bar'', location = origin, poi_category = FOOD,
          average_rating = 3, tags = [''x'']\<rparr>"

definition visitor :: UserProfile where
  "visitor = \<lparr>user_id = 7, preferences_vector = []\<rparr>"

definition nature_lover :: UserProfile where
  "nature_lover = \<lparr>user_id = 8, preferences_vector = [(''nature'', 1)]\<rparr>"

definition liked :: "uuid \<Rightarrow> uuid \<Rightarrow> real \<Rightarrow> nat \<Rightarrow> Interaction" where
  "liked uid pid s m = \<lparr>interaction_user = uid, interaction_poi = pid, interaction_type = LIKE,
                         timestamp = at_time s m\<rparr>"

definition empty_db :: db where
  "empty_db = \<lparr>pois = [], users = Map.empty, interactions = [], blacklist = Map.empty,
               trending_lists = Map.empty, seasonal_metadata = Map.empty, stdout = []\<rparr>"

definition nearby :: ContextDTO where
  "nearby = \<lparr>user_location = origin, time_of_day = None, is_open_only = True,
             radius_meters = 5000, max_results = 10\<rparr>"

text \<open>Three equally rated POIs, scanned in the order of ids 2, 3, 1.\<close>

definition city :: db where
  "city = empty_db\<lparr>pois := [cafe, park, museum]\<rparr>"

text \<open>A blacklist row for the cafe that expires at second 3600.\<close>

definition stale_entry :: BlacklistedPOI where
  "stale_entry = \<lparr>blacklisted_poi = 2, reason = ''Negative feedback spike'',
                  created_at = at_time 0 1, expires_at = at_time 3600 1\<rparr>"

definition city_with_stale_entry :: db where
  "city_with_stale_entry = city\<lparr>blacklist := [2 \<mapsto> stale_entry]\<rparr>"

text \<open>User 7, with an empty preference vector, has liked the bar, whose only tag is \<open>x\<close>.\<close>

definition like_db :: db where
  "like_db = empty_db\<lparr>pois := [bar], users := [7 \<mapsto> visitor],
                      interactions := [liked 7 4 1000 4]\<rparr>"

text \<open>The museum is scanned before the cafe; the cafe has two recent interactions, the museum one.\<close>

definition trend_db :: db where
  "trend_db = empty_db\<lparr>pois := [museum, cafe],
                       interactions := [liked 7 2 1000 4, liked 7 1 1500 7, liked 8 2 2000 7]\<rparr>"

text \<open>The cafe has interactions in April, July (twice) and December; the museum has none.\<close>

definition season_db :: db where
  "season_db = empty_db\<lparr>pois := [museum, cafe],
                        interactions := [liked 7 2 1000 4, liked 7 2 1500 7, liked 8 2 2000 7,
                                         liked 8 2 2500 12]\<rparr>"

section \<open>Auxiliary notions for doubles\<close>




section \<open>Properties of the similarity\<close>

lemma sum_squares_nonneg: "0 \<le> sum_list (map (\<lambda>u. u ^ 2) (us :: real list))"
  by (induction us) simp_all

lemma sum_squares_zero_iff:
  "sum_list (map (\<lambda>u. u ^ 2) (us :: real list)) = 0 \<longleftrightarrow> (\<forall>u \<in> set us. u = 0)"
proof (induction us)
  case Nil
  then show ?case by simp
next
  case (Cons u us)
  have "u ^ 2 + sum_list (map (\<lambda>u. u ^ 2) us) = 0
          \<longleftrightarrow> u ^ 2 = 0 \<and> sum_list (map (\<lambda>u. u ^ 2) us) = 0"
    using sum_squares_nonneg [of us] by (simp add: add_nonneg_eq_0_iff)
  with Cons show ?case by simp
qed

lemma magnitude_zero_iff: "magnitude us = 0 \<longleftrightarrow> (\<forall>u \<in> set us. u = 0)"
  by (simp add: magnitude_def sum_squares_zero_iff)

lemma calculate_similarity_range:
  "0 \<le> calculate_similarity a b \<and> calculate_similarity a b \<le> 1"
  by (simp add: calculate_similarity_def Let_def)

lemma calculate_similarity_zero_left:
  assumes "a = [] \<or> (\<forall>u \<in> set a. u = 0)"
  shows "calculate_similarity a b = 0"
proof -
  have "\<forall>u \<in> set (take n a). u = 0" for n
    using assms by (auto dest: in_set_takeD)
  then have "magnitude (take n a) = 0" for n
    by (simp add: magnitude_zero_iff)
  then show ?thesis
    by (simp add: calculate_similarity_def Let_def)
qed

section \<open>Properties of the distance decay\<close>

lemma decay_range: "0 < calculate_distance_decay x \<and> calculate_distance_decay x \<le> 1"
  by (cases x) (auto simp: calculate_distance_decay_def max_def)

section \<open>Ranges of the scores\<close>

lemma compute_score_components:
  "compute_score self poi user distance = (f, s, ds, r) \<Longrightarrow>
     s = calculate_similarity (get_user_vector user) (get_poi_vector poi)
     \<and> r = (if average_rating poi \<noteq> 0 then average_rating poi / 5 else 0)
     \<and> ds = (if distance \<noteq> None \<and> distance \<noteq> Some 0 then calculate_distance_decay distance else 1)
     \<and> f = s * WEIGHT_INTEREST self + r * WEIGHT_RATING self + ds * WEIGHT_DISTANCE self"
  by (auto simp: compute_score_def Let_def)

lemma compute_score_default_range:
  assumes r: "0 \<le> average_rating poi" "average_rating poi \<le> 5"
    and c: "compute_score default_service poi user distance = (f, s, ds, r')"
  shows "unit_interval s \<and> unit_interval r' \<and> unit_interval ds \<and> unit_interval f"
proof -
  note comp = compute_score_components [OF c]
  have s: "0 \<le> s" "s \<le> 1"
    using comp calculate_similarity_range by simp_all
  have rr: "0 \<le> r'" "r' \<le> 1"
    using comp r by (auto split: if_splits)
  have d: "0 \<le> ds" "ds \<le> 1"
    using comp decay_range [of distance] by (auto split: if_splits simp: less_imp_le)
  have f: "f = s * (5 / 10) + r' * (3 / 10) + ds * (2 / 10)"
    using comp by (simp add: default_service_def ScoringService_init_def)
  have "0 \<le> f" "f \<le> 1"
    using s rr d unfolding f by linarith+
  with s rr d show ?thesis by (simp add: unit_interval_def)
qed

section \<open>The ranking\<close>

lemma set_slice_to: "set (slice_to n xs) \<subseteq> set xs"
  by (auto simp: slice_to_def dest: in_set_takeD)

lemma length_slice_to: "0 \<le> n \<Longrightarrow> int (length (slice_to n xs)) \<le> n"
  by (simp add: slice_to_def)

lemma slice_to_all: "int (length xs) \<le> n \<Longrightarrow> slice_to n xs = xs"
  by (simp add: slice_to_def)

lemma slice_to_take: "\<exists>m. slice_to n xs = take m xs"
  by (auto simp: slice_to_def)

lemma score_candidate_fields:
  "sp_poi_id (score_candidate self user poi dm) = poi_id poi
   \<and> (final_score (score_candidate self user poi dm),
       similarity_score (score_candidate self user poi dm),
       distance_score (score_candidate self user poi dm),
       rating_score (score_candidate self user poi dm)) = compute_score self poi user (Some dm)"
  by (simp add: score_candidate_def split: prod.splits)

lemma set_generate_recommendations:
  "set (generate_recommendations self distance_func d user context)
     \<subseteq> set (scored_pois self distance_func d user context)"
  using set_slice_to [of "max_results context"
      "sort_key (\<lambda>x. - final_score x) (scored_pois self distance_func d user context)"]
  by (simp add: generate_recommendations_def)

lemma scored_pois_origin:
  assumes "x \<in> set (scored_pois self distance_func d user context)"
  obtains poi where "poi \<in> set (pois d)"
    and "distance_func (location poi) (user_location context) \<le> radius_meters context"
    and "blacklist d (poi_id poi) = None"
    and "x = score_candidate self user poi (distance_func (location poi) (user_location context))"
  using assms by (auto simp: scored_pois_def candidate_pois_def)

text \<open>
  Claim C10. With the default weights and an average rating between 0 and 5, the similarity,
  rating and distance scores and the final score returned by \<^verbatim>\<open>compute_score\<close> all lie
  between 0 and 1; hence so do the four score fields of every \<^verbatim>\<open>ScoredPOI\<close> returned by
  \<^verbatim>\<open>generate_recommendations\<close> when the ratings of the stored POIs lie between 0 and 5.
\<close>

theorem scores_in_unit_interval:
  "(0 \<le> average_rating poi \<and> average_rating poi \<le> 5 \<longrightarrow>
      (case compute_score default_service poi user distance of
         (final, sim, dec, rating) \<Rightarrow>
           unit_interval sim \<and> unit_interval rating \<and> unit_interval dec \<and> unit_interval final))
   \<and> ((\<forall>p \<in> set (pois d). 0 \<le> average_rating p \<and> average_rating p \<le> 5) \<longrightarrow>
      (\<forall>x \<in> set (generate_recommendations default_service distance_func d user context).
         unit_interval (similarity_score x) \<and> unit_interval (rating_score x)
         \<and> unit_interval (distance_score x) \<and> unit_interval (final_score x)))"
proof (intro conjI impI ballI)
  assume "0 \<le> average_rating poi \<and> average_rating poi \<le> 5"
  then show "case compute_score default_service poi user distance of
         (final, sim, dec, rating) \<Rightarrow>
           unit_interval sim \<and> unit_interval rating \<and> unit_interval dec \<and> unit_interval final"
    using compute_score_default_range [of poi user distance]
    by (auto split: prod.splits)
next
  fix x
  assume r: "\<forall>p \<in> set (pois d). 0 \<le> average_rating p \<and> average_rating p \<le> 5"
    and x: "x \<in> set (generate_recommendations default_service distance_func d user context)"
  from x set_generate_recommendations
  have "x \<in> set (scored_pois default_service distance_func d user context)" by blast
  then obtain p where p: "p \<in> set (pois d)"
    and xp: "x = score_candidate default_service user p
                   (distance_func (location p) (user_location context))"
    by (rule scored_pois_origin)
  from r p have rp: "0 \<le> average_rating p" "average_rating p \<le> 5" by simp_all
  have "compute_score default_service p user
          (Some (distance_func (location p) (user_location context)))
        = (final_score x, similarity_score x, distance_score x, rating_score x)"
    unfolding xp using score_candidate_fields by simp
  from compute_score_default_range [OF rp this]
  show "unit_interval (similarity_score x)" "unit_interval (rating_score x)"
    "unit_interval (distance_score x)" "unit_interval (final_score x)"
    by simp_all
qed

lemma ranking_sorted:
  "sorted_wrt (\<lambda>x y. final_score y \<le> final_score x)
     (generate_recommendations self distance_func d user context)"
proof -
  let ?s = "sort_key (\<lambda>x. - final_score x) (scored_pois self distance_func d user context)"
  have "sorted (map (\<lambda>x. - final_score x) ?s)"
    by (rule sorted_sort_key)
  then have "sorted_wrt (\<lambda>x y. final_score y \<le> final_score x) ?s"
    by (simp add: sorted_map)
  moreover obtain m where "generate_recommendations self distance_func d user context = take m ?s"
    using slice_to_take [of "max_results context" ?s]
    by (auto simp: generate_recommendations_def)
  ultimately show ?thesis
    by (simp add: sorted_wrt_take)
qed

lemma ranking_ties:
  "prefix (filter (\<lambda>x. final_score x = k)
             (generate_recommendations self distance_func d user context))
     (filter (\<lambda>x. final_score x = k) (scored_pois self distance_func d user context))"
proof -
  let ?src = "scored_pois self distance_func d user context"
  let ?s = "sort_key (\<lambda>x. - final_score x) ?src"
  obtain m where m: "generate_recommendations self distance_func d user context = take m ?s"
    using slice_to_take [of "max_results context" ?s]
    by (auto simp: generate_recommendations_def)
  have "filter (\<lambda>x. - final_score x = - k) ?s = filter (\<lambda>x. - final_score x = - k) ?src"
    by (rule sort_key_stable)
  then have st: "filter (\<lambda>x. final_score x = k) ?s = filter (\<lambda>x. final_score x = k) ?src"
    by simp
  have "filter (\<lambda>x. final_score x = k) ?s
          = filter (\<lambda>x. final_score x = k) (take m ?s) @ filter (\<lambda>x. final_score x = k) (drop m ?s)"
    by (metis append_take_drop_id filter_append)
  then have "prefix (filter (\<lambda>x. final_score x = k) (take m ?s))
               (filter (\<lambda>x. final_score x = k) ?s)"
    by (metis prefixI)
  then show ?thesis
    unfolding m st .
qed

text \<open>
  Claim C3, amended. For a context with \<^verbatim>\<open>max_results\<close> at least 1 the returned list has at
  most \<^verbatim>\<open>max_results\<close> elements and is in descending order of \<^verbatim>\<open>final_score\<close>; candidates
  of equal \<^verbatim>\<open>final_score\<close> keep the order in which the candidate query returned them (the
  sort is stable), they are not ordered by id.
\<close>

theorem ranking_stable_descending:
  "1 \<le> max_results context \<Longrightarrow>
     int (length (generate_recommendations self distance_func d user context))
       \<le> max_results context
     \<and> sorted_wrt (\<lambda>x y. final_score y \<le> final_score x)
         (generate_recommendations self distance_func d user context)
     \<and> prefix (filter (\<lambda>x. final_score x = k)
                  (generate_recommendations self distance_func d user context))
         (filter (\<lambda>x. final_score x = k) (scored_pois self distance_func d user context))"
  using length_slice_to [of "max_results context"] ranking_sorted ranking_ties
  by (simp add: generate_recommendations_def)

lemma blacklisted_never_returned:
  assumes "blacklist d (poi_id poi) = Some e"
  shows "poi_id poi \<notin> sp_poi_id ` set (generate_recommendations self distance_func d user context)"
proof
  assume "poi_id poi \<in> sp_poi_id ` set (generate_recommendations self distance_func d user context)"
  then obtain x where x: "x \<in> set (generate_recommendations self distance_func d user context)"
    and xi: "sp_poi_id x = poi_id poi" by auto
  from x set_generate_recommendations
  have "x \<in> set (scored_pois self distance_func d user context)" by blast
  then obtain p where "blacklist d (poi_id p) = None"
    and "x = score_candidate self user p (distance_func (location p) (user_location context))"
    by (rule scored_pois_origin)
  with xi assms show False by (simp add: score_candidate_fields)
qed

section \<open>The positional vectors\<close>

lemma fold_enumerate_update:
  "length (fold (\<lambda>(i, x) v. if i < n then v[i := g x] else v) (enumerate k xs) v) = length v
   \<and> (\<forall>j. j < length v \<longrightarrow>
        fold (\<lambda>(i, x) v. if i < n then v[i := g x] else v) (enumerate k xs) v ! j
          = (if k \<le> j \<and> j < k + length xs \<and> j < n then g (xs ! (j - k)) else v ! j))"
proof (induction xs arbitrary: k v)
  case Nil
  then show ?case by auto
next
  case (Cons x xs)
  let ?v = "if k < n then v[k := g x] else v"
  have l: "length ?v = length v" by simp
  show ?case
    using Cons.IH [of "Suc k" ?v]
    by (auto simp: nth_list_update nth_Cons' Suc_diff_le)
qed

lemma fold_enumerate_closed:
  "fold (\<lambda>(i, x) v. if i < n then v[i := g x] else v) (enumerate 0 xs) (replicate n z)
     = take n (map g xs) @ replicate (n - length xs) z"
proof (rule nth_equalityI)
  show "length (fold (\<lambda>(i, x) v. if i < n then v[i := g x] else v) (enumerate 0 xs)
          (replicate n z)) = length (take n (map g xs) @ replicate (n - length xs) z)"
    using fold_enumerate_update [of n g 0 xs "replicate n z"] by auto
next
  fix j
  assume "j < length (fold (\<lambda>(i, x) v. if i < n then v[i := g x] else v) (enumerate 0 xs)
          (replicate n z))"
  then have j: "j < n"
    using fold_enumerate_update [of n g 0 xs "replicate n z"] by simp
  then show "fold (\<lambda>(i, x) v. if i < n then v[i := g x] else v) (enumerate 0 xs)
          (replicate n z) ! j = (take n (map g xs) @ replicate (n - length xs) z) ! j"
    using fold_enumerate_update [of n g 0 xs "replicate n z"]
    by (auto simp: nth_append)
qed

lemma get_user_vector_closed:
  assumes "preferences_vector user \<noteq> []"
  shows "get_user_vector user = positional_user_vector (preferences_vector user)"
proof -
  have "fold (\<lambda>(i, (tag, weight)) v. if i < vector_dimension then v[i := weight / m] else v)
          (enumerate 0 xs) (replicate vector_dimension 0)
        = take vector_dimension (map (\<lambda>(tag, weight). weight / m) xs)
          @ replicate (vector_dimension - length xs) 0"
    for m :: real and xs :: "(string \<times> real) list"
    using fold_enumerate_closed [of vector_dimension "\<lambda>x. snd x / m" xs 0]
    by (simp add: case_prod_unfold)
  with assms show ?thesis
    by (simp add: get_user_vector_def positional_user_vector_def Let_def)
qed

lemma fold_update_guard:
  "\<forall>(i, t) \<in> set xs. i < n \<Longrightarrow>
     fold (\<lambda>(i, t) v. v[i := c]) xs v = fold (\<lambda>(i, t) v. if i < n then v[i := c] else v) xs v"
  by (induction xs arbitrary: v) auto

lemma get_poi_vector_closed:
  assumes "tags poi \<noteq> []"
  shows "get_poi_vector poi = positional_poi_vector (length (tags poi))"
proof -
  let ?c = "1 / real (length (tags poi))"
  let ?xs = "enumerate 0 (take vector_dimension (tags poi))"
  have "\<forall>(i, t) \<in> set ?xs. i < vector_dimension"
    by (auto simp: in_set_enumerate_eq)
  then have "fold (\<lambda>(i, t) v. v[i := ?c]) ?xs (replicate vector_dimension 0)
      = fold (\<lambda>(i, t) v. if i < vector_dimension then v[i := ?c] else v) ?xs
          (replicate vector_dimension 0)"
    by (rule fold_update_guard)
  also have "\<dots> = take vector_dimension (map (\<lambda>t. ?c) (take vector_dimension (tags poi)))
                   @ replicate (vector_dimension - length (take vector_dimension (tags poi))) 0"
    by (rule fold_enumerate_closed)
  also have "\<dots> = positional_poi_vector (length (tags poi))"
    by (simp add: positional_poi_vector_def min.commute map_replicate_const)
  finally show ?thesis
    using assms by (simp add: get_poi_vector_def Let_def)
qed

lemma compute_score_similarity:
  "compute_score self poi user distance = (f, s, ds, r) \<Longrightarrow>
     preferences_vector user \<noteq> [] \<Longrightarrow> tags poi \<noteq> [] \<Longrightarrow>
     s = calculate_similarity (positional_user_vector (preferences_vector user))
           (positional_poi_vector (length (tags poi)))"
  by (auto simp: compute_score_def Let_def get_user_vector_closed get_poi_vector_closed)

section \<open>Seasonal analysis\<close>

lemma increment_season_explicit:
  "increment_season s [(SPRING, a), (SUMMER, b), (FALL, c), (WINTER, e)]
     = [(SPRING, a + (if s = SPRING then 1 else 0)), (SUMMER, b + (if s = SUMMER then 1 else 0)),
        (FALL, c + (if s = FALL then 1 else 0)), (WINTER, e + (if s = WINTER then 1 else 0))]"
  by (cases s) (simp_all add: increment_season_def)

lemma fold_increment_season:
  "fold (\<lambda>i counts. increment_season (season_of_month (month (timestamp i))) counts) is
     [(SPRING, a), (SUMMER, b), (FALL, c), (WINTER, e)]
   = [(SPRING, a + count_season is SPRING), (SUMMER, b + count_season is SUMMER),
      (FALL, c + count_season is FALL), (WINTER, e + count_season is WINTER)]"
proof (induction "is" arbitrary: a b c e)
  case Nil
  then show ?case by (simp add: count_season_def)
next
  case (Cons i "is")
  show ?case
    by (simp add: increment_season_explicit Cons.IH) (simp add: count_season_def)
qed

lemma season_counts_final:
  "fold (\<lambda>i counts. increment_season (season_of_month (month (timestamp i))) counts) is
     initial_season_counts
   = [(SPRING, count_season is SPRING), (SUMMER, count_season is SUMMER),
      (FALL, count_season is FALL), (WINTER, count_season is WINTER)]"
  using fold_increment_season [of "is" 0 0 0 0] by (simp add: initial_season_counts_def)

lemma season_count_explicit:
  "season_count [(SPRING, a), (SUMMER, b), (FALL, c), (WINTER, e)] s
     = (case s of SPRING \<Rightarrow> a | SUMMER \<Rightarrow> b | FALL \<Rightarrow> c | WINTER \<Rightarrow> e)"
  by (cases s) (simp_all add: season_count_def)

lemma peak_of_first_maximum:
  "first_maximum (season_count [(SPRING, a), (SUMMER, b), (FALL, c), (WINTER, e)])
     (peak_of [(SPRING, a), (SUMMER, b), (FALL, c), (WINTER, e)])"
  by (simp add: first_maximum_def peak_of_def all_seasons_def season_count_explicit)


lemma analyze_poi_eq:
  "analyze_poi now poi d =
     (if poi_interactions d (poi_id poi) = [] then d
      else d\<lparr>seasonal_metadata := (seasonal_metadata d)
               (poi_id poi \<mapsto> seasonal_record now d (poi_id poi))\<rparr>)"
  by (simp add: analyze_poi_def poi_interactions_def seasonal_record_def Let_def
      season_counts_final)

lemma analyze_poi_interactions: "interactions (analyze_poi now poi d) = interactions d"
  by (simp add: analyze_poi_eq)

lemma seasonal_record_cong:
  "interactions d' = interactions d \<Longrightarrow> seasonal_record now d' pid = seasonal_record now d pid"
  by (simp add: seasonal_record_def poi_interactions_def)

lemma fold_analyze_poi:
  "interactions (fold (analyze_poi now) ps d) = interactions d
   \<and> seasonal_metadata (fold (analyze_poi now) ps d) k
       = (if k \<in> poi_id ` set ps \<and> poi_interactions d k \<noteq> []
          then Some (seasonal_record now d k) else seasonal_metadata d k)"
proof (induction ps arbitrary: d)
  case Nil
  then show ?case by simp
next
  case (Cons p ps)
  let ?d = "analyze_poi now p d"
  have i: "interactions ?d = interactions d"
    by (rule analyze_poi_interactions)
  then have pi: "poi_interactions ?d j = poi_interactions d j" for j
    by (simp add: poi_interactions_def)
  have r: "seasonal_record now ?d j = seasonal_record now d j" for j
    using i by (rule seasonal_record_cong)
  have m: "seasonal_metadata ?d j
             = (if j = poi_id p \<and> poi_interactions d j \<noteq> []
                then Some (seasonal_record now d j) else seasonal_metadata d j)" for j
    by (auto simp: analyze_poi_eq)
  show ?case
    using Cons.IH [of ?d] by (auto simp: i pi r m)
qed

lemma count_season_months:
  assumes "\<forall>i \<in> set is. 1 \<le> month (timestamp i) \<and> month (timestamp i) \<le> 12"
  shows "count_season is SPRING = length (filter (\<lambda>i. month (timestamp i) \<in> set [3, 4, 5]) is)"
    and "count_season is SUMMER = length (filter (\<lambda>i. month (timestamp i) \<in> set [6, 7, 8]) is)"
    and "count_season is FALL = length (filter (\<lambda>i. month (timestamp i) \<in> set [9, 10, 11]) is)"
    and "count_season is WINTER = length (filter (\<lambda>i. month (timestamp i) \<in> set [12, 1, 2]) is)"
proof -
  have w: "season_of_month m = WINTER \<longleftrightarrow> m \<in> set [12, 1, 2]" if "1 \<le> m" "m \<le> 12" for m
    using that by (auto simp: season_of_month_def) arith
  have "filter (\<lambda>i. season_of_month (month (timestamp i)) = WINTER) is
          = filter (\<lambda>i. month (timestamp i) \<in> set [12, 1, 2]) is"
    using assms by (intro filter_cong refl w) auto
  then show "count_season is WINTER = length (filter (\<lambda>i. month (timestamp i) \<in> set [12, 1, 2]) is)"
    by (simp add: count_season_def)
  have "season_of_month m = SPRING \<longleftrightarrow> m \<in> set [3, 4, 5]" for m
    by (auto simp: season_of_month_def)
  then show "count_season is SPRING = length (filter (\<lambda>i. month (timestamp i) \<in> set [3, 4, 5]) is)"
    by (simp add: count_season_def)
  have "season_of_month m = SUMMER \<longleftrightarrow> m \<in> set [6, 7, 8]" for m
    by (auto simp: season_of_month_def)
  then show "count_season is SUMMER = length (filter (\<lambda>i. month (timestamp i) \<in> set [6, 7, 8]) is)"
    by (simp add: count_season_def)
  have "season_of_month m = FALL \<longleftrightarrow> m \<in> set [9, 10, 11]" for m
    by (auto simp: season_of_month_def)
  then show "count_season is FALL = length (filter (\<lambda>i. month (timestamp i) \<in> set [9, 10, 11]) is)"
    by (simp add: count_season_def)
qed

lemma visits_in_poi_interactions:
  "visits_in d pid months
     = length (filter (\<lambda>i. month (timestamp i) \<in> set months) (poi_interactions d pid))"
  by (simp add: visits_in_def poi_interactions_def conj_commute)

text \<open>
  Claim C8. After \<^verbatim>\<open>analyze_seasonal_trends\<close>, every POI with at least one interaction has a
  seasonal record whose four counters are the numbers of that POI's interactions with a
  timestamp month in March to May, June to August, September to November, and December to
  February, and whose peak season is the first maximum of the four counters in the order
  Spring, Summer, Fall, Winter. The record is written whatever was stored before. Months are
  calendar months, 1 to 12.
\<close>

theorem analyze_seasonal_trends_recomputes:
  assumes "poi \<in> set (pois d)"
    and "\<exists>i \<in> set (interactions d). interaction_poi i = poi_id poi"
    and "\<forall>i \<in> set (interactions d). 1 \<le> month (timestamp i) \<and> month (timestamp i) \<le> 12"
  shows "\<exists>m. seasonal_metadata (analyze_seasonal_trends now d) (poi_id poi) = Some m
           \<and> seasonal_poi m = poi_id poi
           \<and> visit_count_spring m = visits_in d (poi_id poi) [3, 4, 5]
           \<and> visit_count_summer m = visits_in d (poi_id poi) [6, 7, 8]
           \<and> visit_count_fall m = visits_in d (poi_id poi) [9, 10, 11]
           \<and> visit_count_winter m = visits_in d (poi_id poi) [12, 1, 2]
           \<and> first_maximum (visit_count m) (peak_season m)"
proof -
  let ?k = "poi_id poi"
  let ?is = "poi_interactions d ?k"
  let ?m = "seasonal_record now d ?k"
  from assms(2) have ne: "?is \<noteq> []"
    by (auto simp: poi_interactions_def filter_empty_conv)
  have "seasonal_metadata (analyze_seasonal_trends now d) ?k
          = seasonal_metadata (fold (analyze_poi now) (pois d) d) ?k"
    by (simp add: analyze_seasonal_trends_def Let_def)
  also have "\<dots> = Some ?m"
    using fold_analyze_poi [of now "pois d" d ?k] assms(1) ne by simp
  finally have stored: "seasonal_metadata (analyze_seasonal_trends now d) ?k = Some ?m" .
  have months: "\<forall>i \<in> set ?is. 1 \<le> month (timestamp i) \<and> month (timestamp i) \<le> 12"
    using assms(3) by (simp add: poi_interactions_def)
  note cs = count_season_months [OF months]
  have vc: "visit_count ?m = season_count
              [(SPRING, count_season ?is SPRING), (SUMMER, count_season ?is SUMMER),
               (FALL, count_season ?is FALL), (WINTER, count_season ?is WINTER)]"
  proof
    fix s show "visit_count ?m s = season_count
              [(SPRING, count_season ?is SPRING), (SUMMER, count_season ?is SUMMER),
               (FALL, count_season ?is FALL), (WINTER, count_season ?is WINTER)] s"
      by (cases s) (simp_all add: seasonal_record_def Let_def)
  qed
  have pk: "first_maximum (visit_count ?m) (peak_season ?m)"
    unfolding vc using peak_of_first_maximum
    by (simp add: seasonal_record_def Let_def)
  have "seasonal_poi ?m = ?k"
    by (simp add: seasonal_record_def Let_def)
  moreover have "visit_count_spring ?m = visits_in d ?k [3, 4, 5]"
    unfolding visits_in_poi_interactions cs(1) [symmetric]
    by (simp add: seasonal_record_def Let_def season_count_explicit)
  moreover have "visit_count_summer ?m = visits_in d ?k [6, 7, 8]"
    unfolding visits_in_poi_interactions cs(2) [symmetric]
    by (simp add: seasonal_record_def Let_def season_count_explicit)
  moreover have "visit_count_fall ?m = visits_in d ?k [9, 10, 11]"
    unfolding visits_in_poi_interactions cs(3) [symmetric]
    by (simp add: seasonal_record_def Let_def season_count_explicit)
  moreover have "visit_count_winter ?m = visits_in d ?k [12, 1, 2]"
    unfolding visits_in_poi_interactions cs(4) [symmetric]
    by (simp add: seasonal_record_def Let_def season_count_explicit)
  ultimately show ?thesis
    using stored pk by blast
qed

section \<open>The similarity score of a candidate\<close>

text \<open>
  Claim C4, amended. For a user with a non-empty preference dictionary and a POI with a
  non-empty tag list, the similarity score of \<^verbatim>\<open>compute_score\<close> is the clamped cosine of two
  positional vectors of 100 entries: the user's weights in the order of the sorted tags, each
  divided by the largest weight, and \<open>1 / n\<close> in the first \<open>min n 100\<close> entries for a POI with
  \<open>n\<close> tags. Entries are matched by position: the names of the POI's tags play no role.
\<close>

theorem similarity_is_positional:
  "preferences_vector user \<noteq> [] \<Longrightarrow> tags poi \<noteq> [] \<Longrightarrow>
     fst (snd (compute_score self poi user distance))
       = calculate_similarity (positional_user_vector (preferences_vector user))
           (positional_poi_vector (length (tags poi)))"
  using compute_score_similarity [of self poi user distance]
  by (cases "compute_score self poi user distance") auto

theorem similarity_is_positional_witness:
  "preferences_vector nature_lover \<noteq> [] \<and> tags cafe \<noteq> []
   \<and> fst (snd (compute_score default_service cafe nature_lover (Some 0)))
       = calculate_similarity (positional_user_vector [(''nature'', 1)]) (positional_poi_vector 1)"
  using similarity_is_positional [of nature_lover cafe default_service "Some 0"]
  by (simp add: nature_lover_def cafe_def)

text \<open>
  Claim C4 as stated fails: a user whose only tag is \<open>nature\<close> and a POI whose only tag is
  \<open>food\<close> share no tag, so the cosine over the union of tags is 0, but the code's similarity
  score is 1.
\<close>

theorem sparse_cosine_counterexample:
  "fst (snd (compute_score default_service cafe nature_lover (Some 0))) = 1
   \<and> spec_sparse_cosine (preferences_vector nature_lover) (spec_tag_mapping (tags cafe)) = 0"
proof
  obtain f s ds r where c: "compute_score default_service cafe nature_lover (Some 0) = (f, s, ds, r)"
    by (cases "compute_score default_service cafe nature_lover (Some 0)") auto
  have "s = calculate_similarity (positional_user_vector (preferences_vector nature_lover))
           (positional_poi_vector (length (tags cafe)))"
    using c by (rule compute_score_similarity) (simp_all add: nature_lover_def cafe_def)
  also have "\<dots> = 1"
    by (simp add: nature_lover_def cafe_def positional_user_vector_def positional_poi_vector_def
        vector_dimension_def calculate_similarity_def dot_product_def magnitude_def Let_def
        sum_list_replicate)
  finally show "fst (snd (compute_score default_service cafe nature_lover (Some 0))) = 1"
    using c by simp
  show "spec_sparse_cosine (preferences_vector nature_lover) (spec_tag_mapping (tags cafe)) = 0"
    by (simp add: spec_sparse_cosine_def spec_tag_mapping_def spec_sparse_weight_def
        nature_lover_def cafe_def dot_product_def magnitude_def Let_def)
qed

section \<open>The ranking on the example data\<close>

lemma compute_score_no_preferences:
  "preferences_vector user = [] \<Longrightarrow>
     compute_score self poi user distance =
       (let rating_score = (if average_rating poi \<noteq> 0 then average_rating poi / 5 else 0);
            distance_score = (if distance \<noteq> None \<and> distance \<noteq> Some 0
                              then calculate_distance_decay distance else 1)
        in (rating_score * WEIGHT_RATING self + distance_score * WEIGHT_DISTANCE self,
            0, distance_score, rating_score))"
  by (simp add: compute_score_def Let_def get_user_vector_def calculate_similarity_zero_left)

text \<open>
  Claim C3 as stated fails in its tie-break: three candidates with the same final score,
  scanned in the order of ids 2, 3, 1, are returned in that order, not in the order of their ids.
\<close>

theorem tie_order_counterexample:
  "map (\<lambda>x. (sp_poi_id x, final_score x))
     (generate_recommendations default_service planar_distance city visitor nearby)
   = [(2, 11 / 25), (3, 11 / 25), (1, 11 / 25)]"
  by (simp add: generate_recommendations_def scored_pois_def candidate_pois_def
      score_candidate_def compute_score_no_preferences slice_to_def
      city_def empty_db_def nearby_def visitor_def cafe_def park_def museum_def origin_def
      planar_distance_def default_service_def ScoringService_init_def Let_def)

theorem ranking_stable_descending_witness:
  "1 \<le> max_results nearby
   \<and> int (length (generate_recommendations default_service planar_distance city visitor nearby))
       \<le> max_results nearby
   \<and> sorted_wrt (\<lambda>x y. final_score y \<le> final_score x)
       (generate_recommendations default_service planar_distance city visitor nearby)
   \<and> prefix (filter (\<lambda>x. final_score x = 11 / 25)
                (generate_recommendations default_service planar_distance city visitor nearby))
       (filter (\<lambda>x. final_score x = 11 / 25)
          (scored_pois default_service planar_distance city visitor nearby))"
  using ranking_stable_descending [of nearby default_service planar_distance city visitor "11 / 25"]
  by (simp add: nearby_def)

text \<open>
  Claim C2 at a concrete input: the cafe's blacklist row expired at second 3600 and has not
  been swept. At second 7200 the row is expired, yet the cafe is still missing from the
  result, whereas the claim says an expired entry does not exclude its POI; without the row
  the cafe is returned first.
\<close>

theorem expired_entry_still_excludes:
  "entry_expired (at_time 7200 1) stale_entry
   \<and> blacklist city_with_stale_entry (poi_id cafe) = Some stale_entry
   \<and> map sp_poi_id (generate_recommendations default_service planar_distance
                       city_with_stale_entry visitor nearby) = [3, 1]
   \<and> map sp_poi_id (generate_recommendations default_service planar_distance
                       city visitor nearby) = [2, 3, 1]"
  by (simp add: generate_recommendations_def scored_pois_def candidate_pois_def
      score_candidate_def compute_score_no_preferences slice_to_def entry_expired_def
      at_time_def stale_entry_def city_with_stale_entry_def
      city_def empty_db_def nearby_def visitor_def cafe_def park_def museum_def origin_def
      planar_distance_def default_service_def ScoringService_init_def Let_def)

theorem scores_in_unit_interval_witness:
  "0 \<le> average_rating cafe \<and> average_rating cafe \<le> 5
   \<and> (case compute_score default_service cafe nature_lover (Some 250) of
         (final, sim, dec, rating) \<Rightarrow>
           unit_interval sim \<and> unit_interval rating \<and> unit_interval dec \<and> unit_interval final)
   \<and> list_all (\<lambda>p. 0 \<le> average_rating p \<and> average_rating p \<le> 5) (pois city)
   \<and> list_all (\<lambda>x. unit_interval (similarity_score x) \<and> unit_interval (rating_score x)
                   \<and> unit_interval (distance_score x) \<and> unit_interval (final_score x))
       (generate_recommendations default_service planar_distance city nature_lover nearby)"
proof -
  have r: "0 \<le> average_rating cafe \<and> average_rating cafe \<le> 5"
    by (simp add: cafe_def)
  have a: "\<forall>p \<in> set (pois city). 0 \<le> average_rating p \<and> average_rating p \<le> 5"
    by (simp add: city_def cafe_def park_def museum_def)
  note t = scores_in_unit_interval [of cafe nature_lover "Some 250" city planar_distance nearby]
  from t r have c: "case compute_score default_service cafe nature_lover (Some 250) of
         (final, sim, dec, rating) \<Rightarrow>
           unit_interval sim \<and> unit_interval rating \<and> unit_interval dec \<and> unit_interval final"
    by (rule conjunct1 [THEN mp])
  from t a have g: "\<forall>x \<in> set (generate_recommendations default_service planar_distance city
                                nature_lover nearby).
         unit_interval (similarity_score x) \<and> unit_interval (rating_score x)
         \<and> unit_interval (distance_score x) \<and> unit_interval (final_score x)"
    by (rule conjunct2 [THEN mp])
  from a have a': "list_all (\<lambda>p. 0 \<le> average_rating p \<and> average_rating p \<le> 5) (pois city)"
    by (simp add: list_all_iff)
  from g have g': "list_all (\<lambda>x. unit_interval (similarity_score x)
                   \<and> unit_interval (rating_score x)
                   \<and> unit_interval (distance_score x) \<and> unit_interval (final_score x))
       (generate_recommendations default_service planar_distance city nature_lover nearby)"
    by (simp add: list_all_iff)
  from r c a' g' show ?thesis
    by (intro conjI) simp_all
qed

section \<open>The preference update\<close>

text \<open>
  Claim C1 at a concrete input: user 7 has an empty preference vector and a LIKE interaction
  with a POI tagged \<open>x\<close>. One update, and a second one after it, return the database
  unchanged: the vector is still empty, whereas the claim gives tag \<open>x\<close> the weight 0.3 after
  one update and 0.6 after two.
\<close>

theorem like_leaves_vector_unchanged:
  "update_user_vector like_db 7 LIKE = Inr like_db
   \<and> map_option preferences_vector (users like_db 7) = Some []
   \<and> weight_map LIKE = 3 / 10"
  by (simp add: update_user_vector_def UserProfile_get_def POI_get_def recent_interactions_def
      update_vector_def like_db_def empty_db_def liked_def at_time_def bar_def visitor_def
      Let_def)

text \<open>
  Claim C9 as stated fails: for a user id that is not stored the update returns normally, with
  one printed line and nothing else changed; no error reaches the caller.
\<close>

theorem unknown_user_counterexample:
  "users empty_db 7 = None
   \<and> \<not> isl (update_user_vector empty_db 7 LIKE)
   \<and> update_user_vector empty_db 7 LIKE = Inr (empty_db\<lparr>stdout := [User_not_found 7]\<rparr>)"
  by (simp add: update_user_vector_def UserProfile_get_def empty_db_def)

text \<open>
  Claim C9, amended. When \<^verbatim>\<open>update_user_vector\<close> is invoked for a user id that does not
  exist, it prints a "user not found" line and returns normally: no error is surfaced to the
  caller and no stored data changes.
\<close>

theorem unknown_user_is_logged:
  "users d uid = None \<Longrightarrow>
     update_user_vector d uid interaction = Inr (d\<lparr>stdout := stdout d @ [User_not_found uid]\<rparr>)"
  by (simp add: update_user_vector_def UserProfile_get_def)

theorem unknown_user_is_logged_witness:
  "users like_db 8 = None
   \<and> update_user_vector like_db 8 LIKE = Inr (like_db\<lparr>stdout := [User_not_found 8]\<rparr>)"
  using unknown_user_is_logged [of like_db 8 LIKE]
  by (simp add: like_db_def empty_db_def)

section \<open>The trending cache\<close>

text \<open>
  Claim C5 at a concrete input: the first call (cache miss, at second 3000) ranks the cafe
  before the museum and caches the ids 2, 1. The second call, 100 seconds later and with no
  new interaction, is a cache hit that writes nothing, but it returns the museum before the
  cafe: the same members in another order.
\<close>

theorem cache_hit_reorders:
  "(case get_trending_now default_analyzer everywhere (at_time 3000 7) trend_db ''dr5r'' of
      (first, d1) \<Rightarrow>
        (case get_trending_now default_analyzer everywhere (at_time 3100 7) d1 ''dr5r'' of
           (second, d2) \<Rightarrow>
             map poi_id first = [2, 1] \<and> map poi_id second = [1, 2] \<and> d2 = d1))"
  by (simp add: get_trending_now_def trending_query_def interaction_count_def
      TrendingList_update_or_create_def default_analyzer_def TrendAnalyzer_init_def
      everywhere_def trend_db_def empty_db_def liked_def at_time_def museum_def cafe_def
      origin_def Let_def)

section \<open>Seasonal analysis on the example data\<close>

theorem analyze_seasonal_trends_recomputes_witness:
  "cafe \<in> set (pois season_db)
   \<and> (\<exists>i \<in> set (interactions season_db). interaction_poi i = poi_id cafe)
   \<and> list_all (\<lambda>i. 1 \<le> month (timestamp i) \<and> month (timestamp i) \<le> 12)
       (interactions season_db)
   \<and> (\<exists>m. seasonal_metadata (analyze_seasonal_trends (at_time 5000 12) season_db) (poi_id cafe)
             = Some m
           \<and> seasonal_poi m = poi_id cafe
           \<and> visit_count_spring m = visits_in season_db (poi_id cafe) [3, 4, 5]
           \<and> visit_count_summer m = visits_in season_db (poi_id cafe) [6, 7, 8]
           \<and> visit_count_fall m = visits_in season_db (poi_id cafe) [9, 10, 11]
           \<and> visit_count_winter m = visits_in season_db (poi_id cafe) [12, 1, 2]
           \<and> first_maximum (visit_count m) (peak_season m))"
proof -
  have a: "cafe \<in> set (pois season_db)"
    by (simp add: season_db_def)
  have b: "\<exists>i \<in> set (interactions season_db). interaction_poi i = poi_id cafe"
    by (simp add: season_db_def liked_def cafe_def)
  have c: "\<forall>i \<in> set (interactions season_db). 1 \<le> month (timestamp i) \<and> month (timestamp i) \<le> 12"
    by (simp add: season_db_def liked_def at_time_def)
  from c have c': "list_all (\<lambda>i. 1 \<le> month (timestamp i) \<and> month (timestamp i) \<le> 12)
       (interactions season_db)"
    by (simp add: list_all_iff)
  from a b c' analyze_seasonal_trends_recomputes [OF a b c, of "at_time 5000 12"]
  show ?thesis
    by (intro conjI)
qed

lemma season_example:
  "seasonal_metadata (analyze_seasonal_trends (at_time 5000 12) season_db) 2
     = Some \<lparr>seasonal_poi = 2, peak_season = SUMMER, visit_count_spring = 1,
             visit_count_summer = 2, visit_count_fall = 0, visit_count_winter = 1,
             last_analyzed_at = at_time 5000 12\<rparr>
   \<and> seasonal_metadata (analyze_seasonal_trends (at_time 5000 12) season_db) 1 = None"
  by (simp add: analyze_seasonal_trends_def analyze_poi_def season_db_def empty_db_def
      liked_def at_time_def museum_def cafe_def origin_def Let_def season_of_month_def
      initial_season_counts_def increment_season_def peak_of_def season_count_def)

section \<open>Rounding to double\<close>


lemma round_half_even_of_int [simp]: "round_half_even (of_int n) = n"
  by (simp add: round_half_even_def)







lemma powi_eq_powr: "(2::real) powi n = 2 powr (real_of_int n)"
  by (auto simp: powr_real_of_int power_int_def power_one_over inverse_eq_divide)

lemma floor_log2_less: "0 < x \<Longrightarrow> x < 2 powi n \<Longrightarrow> \<lfloor>log 2 x\<rfloor> < n"
proof -
  assume x: "0 < x" "x < 2 powi n"
  from x have "log 2 x < real_of_int n"
    by (simp add: log_less_iff powi_eq_powr)
  then show ?thesis by linarith
qed



lemma ulp_exponent_minus [simp]: "ulp_exponent (- x) = ulp_exponent x"
  by (simp add: ulp_exponent_def)

lemma ulp_exponent_ge: "- 1074 \<le> ulp_exponent x"
  by (simp add: ulp_exponent_def)


lemma round_to_double_zero [simp]: "round_to_double 0 = 0"
  by (simp add: round_to_double_def)



lemma round_to_double_representable:
  assumes "x = of_int m * 2 powi e" "\<bar>m\<bar> < 2 ^ 53" "- 1074 \<le> e"
  shows "round_to_double x = x"
proof (cases "x = 0")
  case True
  then show ?thesis by simp
next
  case False
  define u where "u = ulp_exponent x"
  have "\<bar>x\<bar> = of_int \<bar>m\<bar> * 2 powi e"
    by (simp add: assms(1) abs_mult)
  also have "\<dots> < 2 ^ 53 * 2 powi e"
  proof -
    have "(of_int \<bar>m\<bar> :: real) < of_int (2 ^ 53)"
      using assms(2) by (simp only: of_int_less_iff)
    then show ?thesis by simp
  qed
  also have "\<dots> = 2 powi (e + 53)"
    by (simp add: power_int_add)
  finally have "\<bar>x\<bar> < 2 powi (e + 53)" .
  with False have "\<lfloor>log 2 \<bar>x\<bar>\<rfloor> < e + 53"
    by (intro floor_log2_less) simp_all
  with assms(3) have ue: "u \<le> e"
    unfolding u_def ulp_exponent_def by linarith
  define n where "n = m * 2 ^ nat (e - u)"
  have "(2::real) powi e = 2 powi (e - u) * 2 powi u"
    by (simp add: power_int_add [symmetric])
  moreover have "(2::real) powi (e - u) = 2 ^ nat (e - u)"
    using ue by (simp add: power_int_def)
  ultimately have x: "x = of_int n * 2 powi u"
    by (simp add: assms(1) n_def)
  then have "x / 2 powi u = of_int n"
    by simp
  then have "round_half_even (x / 2 powi u) = n"
    by (simp only: round_half_even_of_int)
  then have "round_to_double x = of_int n * 2 powi u"
    using False by (simp add: round_to_double_def u_def)
  with x show ?thesis by simp
qed






lemma round_to_double_of_int: "\<bar>m\<bar> < 2 ^ 53 \<Longrightarrow> round_to_double (of_int m) = of_int m"
  using round_to_double_representable [of "of_int m" m 0] by simp



section \<open>The similarity on doubles\<close>

lemma overflow_threshold_pos: "0 < overflow_threshold"
  by (simp add: overflow_threshold_def)

lemma to_float_zero [simp]: "to_float 0 = Finite 0"
  using overflow_threshold_pos by (simp add: to_float_def)






lemma float_pow2_zero [simp]: "float_pow2 0 = Inr (Finite 0)"
  using overflow_threshold_pos by (simp add: float_pow2_def)





















section \<open>The distance decay on doubles\<close>




lemma round_to_double_one [simp]: "round_to_double 1 = 1"
  using round_to_double_of_int [of 1] by simp









end
